theory Spec2Isabelle
  imports Complex_Main "HOL-Library.Word"
begin

section \<open>Strings and literals\<close>

text \<open>
  Python strings are modelled as \<^typ>\<open>string\<close>, holding the UTF-8 bytes of the text: the
  handlers only compare strings for equality, concatenate them and test them for emptiness,
  and UTF-8 encoding preserves all three. Non-ASCII literals of the source are written as
  their bytes.
\<close>

definition utf8 :: "nat list \<Rightarrow> string" where
  "utf8 bs = map char_of bs"

text \<open>The module constant \<open>ROADMAP_SYSTEM_PROMPT\<close> (main.py, lines 47-83).\<close>

definition ROADMAP_SYSTEM_PROMPT :: string where
  "ROADMAP_SYSTEM_PROMPT =
     ''# Role'' @ utf8 [10, 235, 139, 185, 236, 139, 160, 236, 157, 128] @ '' PC/'' @
     utf8 [235, 158, 169, 237, 131, 145, 32, 237, 153, 152, 234, 178, 189, 32, 234, 184, 176, 235,
       176, 152, 236, 157, 152, 32, 237, 149, 153, 236, 138, 181, 236, 158, 144, 235, 165, 188, 32,
       236, 156, 132, 237, 149, 156, 32, 91, 235, 161, 156, 235, 147, 156, 235, 167, 181, 32, 236,
       131, 157, 236, 132, 177, 32, 236, 157, 184, 237, 132, 176, 235, 183, 176, 236, 150, 180, 93,
       236, 158, 133, 235, 139, 136, 235, 139, 164, 46, 10, 10] @
     ''# Rules & Constraints'' @ utf8 [10] @ ''1. **'' @
     utf8 [236, 157, 184, 237, 132, 176, 235, 183, 176, 32, 236, 155, 144, 236, 185, 153] @
     ''**: '' @ utf8 [10] @ ''   - '' @
     utf8 [237, 149, 156, 32, 235, 178, 136, 236, 151, 144, 32, 39, 237, 149, 152, 235, 130, 152,
       236, 157, 152, 32, 236, 167, 136, 235, 172, 184, 39, 235, 167, 140, 32, 235, 141, 152, 236,
       167, 145, 235, 139, 136, 235, 139, 164, 46, 32, 10] @
     ''   - '' @
     utf8 [236, 167, 136, 235, 172, 184, 32, 236, 139, 156, 32, 236, 157, 184, 236, 130, 172, 44,
       32, 236, 154, 148, 236, 149, 189, 44, 32, 235, 182, 128, 236, 151, 176, 32, 236, 132, 164,
       235, 170, 133, 32, 236, 151, 134, 236, 157, 180, 32, 236, 152, 164, 236, 167, 129, 32, 236,
       167, 136, 235, 172, 184, 235, 167, 140, 32, 236, 182, 156, 235, 160, 165, 237, 149, 169,
       235, 139, 136, 235, 139, 164, 46, 10] @
     ''2. **'' @ utf8 [235, 178, 148, 236, 156, 132, 32, 236, 160, 156, 237, 149, 156] @
     ''**: PC/'' @
     utf8 [235, 158, 169, 237, 131, 145, 32, 237, 153, 156, 236, 154, 169, 32, 237, 153, 156, 235,
       143, 153, 236, 156, 188, 235, 161, 156, 235, 167, 140, 32, 236, 160, 156, 237, 149, 156,
       237, 149, 152, 235, 169, 176, 44, 32, 236, 152, 164, 237, 148, 132, 235, 157, 188, 236, 157,
       184, 32, 237, 153, 156, 235, 143, 153, 32, 234, 176, 144, 236, 167, 128, 32, 236, 139, 156,
       32, 236, 158, 172, 236, 167, 136, 235, 172, 184, 236, 157, 132, 32, 235, 141, 152, 236, 167,
       145, 235, 139, 136, 235, 139, 164, 46, 10] @
     ''3. **'' @
     utf8 [236, 131, 129, 237, 131, 156, 32, 236, 178, 180, 237, 129, 172, 235, 166, 172, 236, 138,
       164, 237, 138, 184] @
     ''**: [A] '' @ utf8 [236, 180, 157, 235, 170, 169, 237, 145, 156] @ '', [B] '' @
     utf8 [236, 132, 184, 235, 182, 128, 32, 235, 170, 169, 237, 145, 156] @ '', [C] '' @
     utf8 [236, 180, 157, 32, 234, 184, 176, 234, 176, 132] @ '', [D] '' @
     utf8 [236, 157, 188, 236, 157, 188, 32, 237, 149, 153, 236, 138, 181, 32, 236, 139, 156, 234,
       176, 132, 10, 10] @
     ''# Interaction Workflow ('' @
     utf8 [235, 176, 152, 235, 147, 156, 236, 139, 156, 32, 236, 136, 156, 236, 132, 156, 32, 236,
       164, 128, 236, 136, 152, 41, 10, 10] @
     ''### 1'' @
     utf8 [235, 139, 168, 234, 179, 132, 58, 32, 236, 160, 149, 235, 179, 180, 32, 236, 136, 152,
       236, 167, 145] @
     '' (Collection)'' @ utf8 [10] @ ''- [A]~[D] '' @
     utf8 [236, 164, 145, 32, 235, 136, 132, 235, 157, 189, 235, 144, 156, 32, 236, 160, 149, 235,
       179, 180, 235, 165, 188, 32, 236, 136, 156, 236, 176, 168, 236, 160, 129, 236, 156, 188,
       235, 161, 156, 32, 237, 149, 152, 235, 130, 152, 236, 148, 169, 32, 236, 167, 136, 235, 172,
       184, 237, 149, 169, 235, 139, 136, 235, 139, 164, 46, 10, 10] @
     ''### 2'' @
     utf8 [235, 139, 168, 234, 179, 132, 58, 32, 236, 154, 148, 236, 149, 189, 32, 235, 176, 143,
       32, 237, 153, 149, 236, 160, 149] @
     '' (Confirmation & Revision)'' @ utf8 [10] @ ''- [A]~[D] '' @
     utf8 [236, 160, 149, 235, 179, 180, 234, 176, 128, 32, 235, 170, 168, 235, 145, 144, 32, 236,
       136, 152, 236, 167, 145, 235, 144, 152, 235, 169, 180, 44, 32, 236, 130, 172, 236, 154, 169,
       236, 158, 144, 236, 151, 144, 234, 178, 140, 32, 236, 136, 152, 236, 167, 145, 235, 144,
       156, 32, 235, 130, 180, 236, 154, 169, 236, 157, 132, 32, 236, 154, 148, 236, 149, 189, 237,
       149, 152, 236, 151, 172, 32, 235, 179, 180, 236, 151, 172, 236, 164, 141, 235, 139, 136,
       235, 139, 164, 46, 10] @
     ''- **'' @ utf8 [236, 164, 145, 236, 154, 148] @ ''**: '' @
     utf8 [236, 154, 148, 236, 149, 189, 32, 237, 155, 132, 32, 235, 176, 152, 235, 147, 156, 236,
       139, 156, 32, 34, 236, 157, 180, 235, 140, 128, 235, 161, 156, 32, 235, 161, 156, 235, 147,
       156, 235, 167, 181, 236, 157, 132, 32, 236, 131, 157, 236, 132, 177, 237, 149, 160, 234,
       185, 140, 236, 154, 148, 63, 32, 236, 136, 152, 236, 160, 149, 237, 149, 152, 234, 179, 160,
       32, 236, 139, 182, 236, 157, 128, 32, 235, 182, 128, 235, 182, 132, 236, 157, 180, 32, 236,
       158, 136, 235, 139, 164, 235, 169, 180, 32, 235, 167, 144, 236, 148, 128, 237, 149, 180, 32,
       236, 163, 188, 236, 132, 184, 236, 154, 148, 46, 34, 235, 157, 188, 234, 179, 160, 32, 235,
       172, 187, 236, 138, 181, 235, 139, 136, 235, 139, 164, 46, 10, 45, 32, 236, 130, 172, 236,
       154, 169, 236, 158, 144, 234, 176, 128, 32, 236, 136, 152, 236, 160, 149, 236, 157, 132, 32,
       236, 154, 148, 236, 178, 173, 237, 149, 152, 235, 169, 180, 32, 237, 149, 180, 235, 139,
       185, 32, 237, 149, 173, 235, 170, 169, 236, 157, 132, 32, 236, 151, 133, 235, 141, 176, 236,
       157, 180, 237, 138, 184, 237, 149, 152, 234, 179, 160, 32, 235, 139, 164, 236, 139, 156, 32,
       50, 235, 139, 168, 234, 179, 132, 40, 236, 154, 148, 236, 149, 189, 32, 235, 176, 143, 32,
       237, 153, 149, 236, 160, 149, 41, 235, 165, 188, 32, 235, 176, 152, 235, 179, 181, 237, 149,
       169, 235, 139, 136, 235, 139, 164, 46, 10, 10] @
     ''### 3'' @
     utf8 [235, 139, 168, 234, 179, 132, 58, 32, 236, 181, 156, 236, 162, 133, 32, 236, 182, 156,
       235, 160, 165] @
     '' (Final Output)'' @
     utf8 [10, 45, 32, 236, 130, 172, 236, 154, 169, 236, 158, 144, 234, 176, 128, 32, 34, 235,
       144, 144, 236, 150, 180, 34, 44, 32, 34, 236, 131, 157, 236, 132, 177, 237, 149, 180, 236,
       164, 152, 34, 44, 32, 34, 237, 153, 149, 236, 157, 184, 34, 32, 235, 147, 177, 32, 236, 138,
       185, 236, 157, 184, 32, 236, 157, 152, 236, 130, 172, 235, 165, 188, 32, 237, 145, 156, 236,
       139, 156, 237, 150, 136, 236, 157, 132, 32, 235, 149, 140, 235, 167, 140] @
     '' JSON '' @
     utf8 [235, 161, 156, 235, 147, 156, 235, 167, 181, 236, 157, 132, 32, 236, 182, 156, 235, 160,
       165, 237, 149, 169, 235, 139, 136, 235, 139, 164, 46, 10, 45, 32, 236, 182, 156, 235, 160,
       165, 32, 236, 139, 156, 32, 235, 139, 164, 235, 165, 184, 32, 237, 133, 141, 236, 138, 164,
       237, 138, 184, 32, 236, 151, 134, 236, 157, 180, 32, 236, 152, 164, 236, 167, 129] @
     '' JSON '' @
     utf8 [235, 141, 176, 236, 157, 180, 237, 132, 176, 235, 167, 140, 32, 236, 182, 156, 235, 160,
       165, 237, 149, 152, 234, 179, 160, 32, 236, 162, 133, 235, 163, 140, 237, 149, 169, 235,
       139, 136, 235, 139, 164, 46, 10, 10] @
     ''# Output Format (JSON Only)'' @ utf8 [10, 123, 10, 32, 32, 34] @ ''roadmap'' @
     utf8 [34] @ '': ['' @ utf8 [10] @ ''    {'' @ utf8 [10] @ ''      '' @ utf8 [34] @
     ''day'' @ utf8 [34] @ '': number,'' @ utf8 [10] @ ''      '' @ utf8 [34] @ ''content'' @
     utf8 [34, 58, 32, 34, 237, 149, 180, 235, 139, 185, 32, 236, 157, 188, 236, 176, 168, 236,
       151, 144, 32, 236, 136, 152, 237, 150, 137, 237, 149, 160] @
     '' PC '' @
     utf8 [234, 184, 176, 235, 176, 152, 32, 237, 149, 153, 236, 138, 181, 32, 235, 130, 180, 236,
       154, 169, 34, 44, 10] @
     ''      '' @ utf8 [34] @ ''time'' @
     utf8 [34, 58, 32, 34, 236, 130, 172, 236, 154, 169, 236, 158, 144, 234, 176, 128, 32, 237,
       153, 149, 236, 160, 149, 237, 149, 156] @
     '' [D] '' @ utf8 [234, 176, 146, 34, 10] @ ''    }'' @ utf8 [10] @ ''  ]'' @
     utf8 [10, 125, 10, 10] @ ''# Instruction to Start'' @
     utf8 [10, 234, 176, 128, 236, 158, 165, 32, 235, 168, 188, 236, 160, 128] @ '' [A] '' @
     utf8 [236, 180, 157, 235, 170, 169, 237, 145, 156, 235, 165, 188, 32, 235, 172, 187, 235, 138,
       148, 32, 236, 167, 136, 235, 172, 184, 235, 182, 128, 237, 132, 176, 32, 236, 139, 156, 236,
       158, 145, 237, 149, 152, 236, 132, 184, 236, 154, 148, 46]"

text \<open>The name literal of the default personality looked up by \<open>get_system_prompt\<close>.\<close>

definition DEFAULT_PERSONALITY_NAME :: string where
  "DEFAULT_PERSONALITY_NAME =
     utf8 [235, 178, 160, 237, 131, 128, 236, 157, 184]"

text \<open>The last-resort literal returned by \<open>get_system_prompt\<close>.\<close>

definition FALLBACK_SYSTEM_PROMPT :: string where
  "FALLBACK_SYSTEM_PROMPT =
     utf8 [235, 139, 185, 236, 139, 160, 236, 157, 128, 32, 235, 143, 132, 236, 155, 128, 236, 157,
       180, 32, 235, 144, 152, 235, 138, 148] @
     '' AI '' @
     utf8 [236, 150, 180, 236, 139, 156, 236, 138, 164, 237, 132, 180, 237, 138, 184, 236, 158,
       133, 235, 139, 136, 235, 139, 164, 46]"

text \<open>The detail text of the 400 responses raised for a malformed \<open>user_id\<close>.\<close>

definition BAD_USER_ID_DETAIL :: string where
  "BAD_USER_ID_DETAIL =
     utf8 [236, 158, 152, 235, 170, 187, 235, 144, 156] @ '' user_id '' @
     utf8 [237, 152, 149, 236, 139, 157, 236, 158, 133, 235, 139, 136, 235, 139, 164, 46]"

text \<open>The detail text of the 404 response of \<open>select_personality\<close>.\<close>

definition PERSONALITY_NOT_FOUND_DETAIL :: string where
  "PERSONALITY_NOT_FOUND_DETAIL =
     utf8 [236, 132, 177, 234, 178, 169, 236, 157, 132, 32, 236, 176, 190, 236, 157, 132, 32, 236,
       136, 152, 32, 236, 151, 134, 236, 138, 181, 235, 139, 136, 235, 139, 164, 46]"

text \<open>The prefix of the 500 detail text of \<open>chat\<close>.\<close>

definition BEDROCK_ERROR_PREFIX :: string where
  "BEDROCK_ERROR_PREFIX =
     ''Bedrock API '' @ utf8 [236, 152, 164, 235, 165, 152, 58, 32]"

text \<open>The error texts of the WebSocket handler.\<close>

definition EMPTY_MESSAGE_ERROR :: string where
  "EMPTY_MESSAGE_ERROR =
     utf8 [235, 169, 148, 236, 139, 156, 236, 167, 128, 234, 176, 128, 32, 235, 185, 132, 236, 150,
       180, 236, 158, 136, 236, 138, 181, 235, 139, 136, 235, 139, 164, 46]"

definition BAD_JSON_ERROR :: string where
  "BAD_JSON_ERROR =
     utf8 [236, 158, 152, 235, 170, 187, 235, 144, 156] @ '' JSON '' @
     utf8 [237, 152, 149, 236, 139, 157, 236, 158, 133, 235, 139, 136, 235, 139, 164, 46]"

definition PROCESSING_ERROR_PREFIX :: string where
  "PROCESSING_ERROR_PREFIX =
     utf8 [236, 178, 152, 235, 166, 172, 32, 236, 164, 145, 32, 236, 152, 164, 235, 165, 152, 234,
       176, 128, 32, 235, 176, 156, 236, 131, 157, 237, 150, 136, 236, 138, 181, 235, 139, 136,
       235, 139, 164, 58, 32]"

text \<open>The message texts of the successful replies of \<open>select_personality\<close> and \<open>start_roadmap\<close>.\<close>

definition SELECTED_SUFFIX :: string where
  "SELECTED_SUFFIX =
     utf8 [32, 236, 132, 177, 234, 178, 169, 236, 157, 180, 32, 236, 132, 160, 237, 131, 157, 235,
       144, 152, 236, 151, 136, 236, 138, 181, 235, 139, 136, 235, 139, 164, 46]"

definition ROADMAP_STARTED_MESSAGE :: string where
  "ROADMAP_STARTED_MESSAGE =
     utf8 [235, 161, 156, 235, 147, 156, 235, 167, 181, 32, 236, 131, 157, 236, 132, 177, 32, 235,
       170, 168, 235, 147, 156, 234, 176, 128, 32, 236, 139, 156, 236, 158, 145, 235, 144, 152,
       236, 151, 136, 236, 138, 181, 235, 139, 136, 235, 139, 164, 46]"
text \<open>The prefix of the 500 detail text of \<open>search_conversations\<close>.\<close>

definition SEARCH_ERROR_PREFIX :: string where
  "SEARCH_ERROR_PREFIX =
     utf8 [234, 178, 128, 236, 131, 137, 32, 236, 164, 145, 32, 236, 152, 164, 235, 165, 152, 32,
       235, 176, 156, 236, 131, 157, 58, 32]"

definition DEFAULT_MODEL_ID :: string where
  "DEFAULT_MODEL_ID = ''anthropic.claude-3-haiku-20240307-v1:0''"

text \<open>Truth value of an \<open>Optional[str]\<close>: \<open>None\<close> and the empty string are falsy.\<close>

definition truthy :: "string option \<Rightarrow> bool" where
  "truthy s = (case s of None \<Rightarrow> False | Some t \<Rightarrow> t \<noteq> [])"

section \<open>Exceptions\<close>

datatype exn =
    ValueError string
  | TypeError string
  | IndexError string
  | ClientError string
  | DatabaseError string

fun str_exn :: "exn \<Rightarrow> string" where
  "str_exn (ValueError m) = m"
| "str_exn (TypeError m) = m"
| "str_exn (IndexError m) = m"
| "str_exn (ClientError m) = m"
| "str_exn (DatabaseError m) = m"

datatype HTTPException = HTTPException (status_code: int) (detail: string)

section \<open>Data model (database.py)\<close>

type_synonym uuid = "128 word"
type_synonym timestamp = nat

text \<open>
  The field names of the records below are the column and attribute names of the source
  behind a prefix, because tables and requests share names such as \<open>session_id\<close>.

  Table \<open>personalities\<close>. Its two timestamp columns are never read by the service and are
  left out.
\<close>

record Personality =
  p_id :: int
  p_name :: string
  p_description :: "string option"
  p_system_prompt :: string

text \<open>Table \<open>session_configs\<close>; every column but the key is nullable.\<close>

record SessionConfig =
  sc_session_id :: string
  sc_user_id :: "uuid option"
  sc_personality_id :: "int option"
  sc_mode :: "string option"
  sc_created_at :: "timestamp option"
  sc_updated_at :: "timestamp option"

text \<open>Table \<open>conversation_messages\<close>; an embedding is an array of floats or \<open>NULL\<close>.\<close>

record ConversationMessage =
  cm_id :: int
  cm_session_id :: string
  cm_user_id :: "uuid option"
  cm_role :: string
  cm_content :: string
  cm_embedding :: "real list option"
  cm_created_at :: "timestamp option"

text \<open>
  The database behind a SQLAlchemy session: the three tables in row order, and the sequence
  that numbers new messages.
\<close>

record database =
  personalities :: "Personality list"
  session_configs :: "SessionConfig list"
  conversation_messages :: "ConversationMessage list"
  next_message_id :: int

text \<open>One entry of a transcript: the dictionary \<open>{"role": ..., "content": ...}\<close>.\<close>

record chat_msg =
  msg_role :: string
  msg_content :: string

text \<open>
  The process state of the chat service: the database and the module-level dictionary
  \<open>conversation_history\<close>. (The dictionary \<open>active_connections\<close> is only written and cleaned
  up by the WebSocket handler, no reply depends on it; it is not modelled.)
\<close>

record server =
  db :: database
  conversation_history :: "string \<rightharpoonup> chat_msg list"

section \<open>Floats (numpy scalars and \<open>float8\<close> columns)\<close>

text \<open>
  A float is a real number or one of the IEEE special values. Arithmetic on finite values
  is exact: rounding is not modelled, the special values that division by zero produces are.
\<close>

datatype npfloat = Fin real | PInf | NInf | NaN

text \<open>The comparison \<open><\<close> of two floats: false as soon as one side is \<open>NaN\<close>.\<close>

fun np_lt :: "npfloat \<Rightarrow> npfloat \<Rightarrow> bool" where
  "np_lt NaN _ = False"
| "np_lt _ NaN = False"
| "np_lt (Fin x) (Fin y) = (x < y)"
| "np_lt NInf NInf = False"
| "np_lt NInf _ = True"
| "np_lt _ NInf = False"
| "np_lt PInf _ = False"
| "np_lt _ PInf = True"


text \<open>
  \<open>np.dot\<close> of two one-dimensional arrays raises \<open>ValueError\<close> when their lengths differ;
  \<open>np.linalg.norm\<close> is the Euclidean norm.
\<close>

definition np_dot :: "real list \<Rightarrow> real list \<Rightarrow> exn + real" where
  "np_dot a b =
     (if length a = length b then Inr (\<Sum>(x, y)\<leftarrow>zip a b. x * y)
      else Inl (ValueError ''shapes not aligned''))"

definition np_norm :: "real list \<Rightarrow> real" where
  "np_norm a = sqrt (\<Sum>x\<leftarrow>a. x * x)"

text \<open>
  Division of two \<open>np.float64\<close> scalars. With numpy's default error state a zero divisor
  gives a warning and a special value, never a \<open>ZeroDivisionError\<close>.
\<close>

definition np_div :: "real \<Rightarrow> real \<Rightarrow> npfloat" where
  "np_div x y =
     (if y \<noteq> 0 then Fin (x / y)
      else if 0 < x then PInf else if x < 0 then NInf else NaN)"

section \<open>The world outside the process\<close>

text \<open>The body sent to the completion model (\<open>anthropic_version\<close> is a constant).\<close>

record payload =
  pl_max_tokens :: "int option"
  pl_temperature :: "real option"
  pl_system :: string
  pl_messages :: "chat_msg list"

text \<open>
  The SQL statements that \<open>search_similar_messages\<close> executes, with their bound
  parameters: the unfiltered one, the one filtered by user, and the filtered one run with
  the query vector alone (its \<open>user_id\<close> parameter left unbound); and a row of their result
  (columns 0 to 6).
\<close>

datatype sql_query =
    SimilarityAll "real list"
  | SimilarityOfUser "real list" uuid
  | SimilarityOfUserUnbound "real list"

record similarity_row =
  r_id :: int
  r_session_id :: string
  r_user_id :: "uuid option"
  r_role :: string
  r_content :: string
  r_created_at :: "timestamp option"
  r_similarity :: "npfloat option"

text \<open>
  What a request finds outside the Python code:
  \<^item> \<open>uuid_UUID\<close>: the constructor \<open>uuid.UUID(s)\<close>, \<open>None\<close> standing for its \<open>ValueError\<close>;
  \<^item> \<open>uuid4\<close>: the value of \<open>str(uuid.uuid4())\<close>;
  \<^item> \<open>utcnow\<close>: the clock;
  \<^item> \<open>invoke_embedding\<close>: the embedding model called on a text, giving the
    \<open>"embedding"\<close> entry of the reply (empty when the entry is missing) or an exception;
  \<^item> \<open>invoke_model\<close>: the completion model called with a model id and a body, giving the
    \<open>"text"\<close> entries of the \<open>"content"\<close> blocks of the reply or an exception;
  \<^item> \<open>db_execute\<close>: the database executing one of the pgvector statements;
  \<^item> \<open>orm_error\<close>: the exception, if any, that the ORM query of the fallback search meets.
  All other database operations are modelled on the tables and succeed.
\<close>

record env =
  uuid_UUID :: "string \<Rightarrow> uuid option"
  uuid4 :: string
  utcnow :: timestamp
  invoke_embedding :: "string \<Rightarrow> exn + real list"
  invoke_model :: "string option \<Rightarrow> payload \<Rightarrow> exn + string option list"
  db_execute :: "sql_query \<Rightarrow> exn + similarity_row list"
  orm_error :: "exn option"

section \<open>Session registry and system prompt\<close>

definition get_session_config :: "string \<Rightarrow> database \<Rightarrow> SessionConfig option" where
  "get_session_config session_id d =
     find (\<lambda>c. sc_session_id c = session_id) (session_configs d)"

text \<open>
  \<open>get_system_prompt\<close> (main.py, lines 284-303). The test \<open>config.personality_id\<close> is a
  truth test of an optional integer: \<open>None\<close> and \<open>0\<close> both fail it.
\<close>

definition get_system_prompt :: "string \<Rightarrow> database \<Rightarrow> string" where
  "get_system_prompt session_id d =
     (let config = get_session_config session_id d;
          default_prompt =
            (case find (\<lambda>p. p_name p = DEFAULT_PERSONALITY_NAME) (personalities d) of
               Some default_personality \<Rightarrow> p_system_prompt default_personality
             | None \<Rightarrow> FALLBACK_SYSTEM_PROMPT)
      in case config of
           None \<Rightarrow> default_prompt
         | Some c \<Rightarrow>
             if sc_mode c = Some ''roadmap'' then ROADMAP_SYSTEM_PROMPT
             else (case sc_personality_id c of
                     None \<Rightarrow> default_prompt
                   | Some pid \<Rightarrow>
                       if pid = 0 then default_prompt
                       else (case find (\<lambda>p. p_id p = pid) (personalities d) of
                               Some personality \<Rightarrow> p_system_prompt personality
                             | None \<Rightarrow> default_prompt)))"

text \<open>Replace the first row that satisfies \<open>P\<close>: the update of the one ORM object loaded.\<close>

fun update_first :: "('a \<Rightarrow> bool) \<Rightarrow> ('a \<Rightarrow> 'a) \<Rightarrow> 'a list \<Rightarrow> 'a list" where
  "update_first P f [] = []"
| "update_first P f (x # xs) = (if P x then f x # xs else x # update_first P f xs)"

section \<open>Request handlers of the session registry\<close>

record SelectPersonalityRequest =
  spr_session_id :: string
  spr_personality_id :: int
  spr_user_id :: "string option"

record select_reply =
  sel_message :: string
  sel_session_id :: string
  sel_personality_id :: int
  sel_personality_name :: string

text \<open>\<open>select_personality\<close>, the handler of \<open>POST /personalities/select\<close> (lines 430-478).\<close>

definition select_personality ::
    "env \<Rightarrow> SelectPersonalityRequest \<Rightarrow> server \<Rightarrow> (HTTPException + select_reply) \<times> server" where
  "select_personality e request s =
     (case find (\<lambda>p. p_id p = spr_personality_id request) (personalities (db s)) of
        None \<Rightarrow> (Inl (HTTPException 404 PERSONALITY_NOT_FOUND_DETAIL), s)
      | Some personality \<Rightarrow>
          (case (case spr_user_id request of
                   None \<Rightarrow> Inr None
                 | Some u \<Rightarrow>
                     if u = [] then Inr None
                     else (case uuid_UUID e u of
                             None \<Rightarrow> Inl (HTTPException 400 BAD_USER_ID_DETAIL)
                           | Some v \<Rightarrow> Inr (Some v))) of
             Inl err \<Rightarrow> (Inl err, s)
           | Inr user_uuid \<Rightarrow>
               (let d = db s;
                    configs =
                      (case get_session_config (spr_session_id request) d of
                         None \<Rightarrow>
                           session_configs d @
                             [\<lparr>sc_session_id = spr_session_id request,
                               sc_user_id = user_uuid,
                               sc_personality_id = Some (spr_personality_id request),
                               sc_mode = Some ''chat'',
                               sc_created_at = Some (utcnow e),
                               sc_updated_at = Some (utcnow e)\<rparr>]
                       | Some _ \<Rightarrow>
                           update_first (\<lambda>c. sc_session_id c = spr_session_id request)
                             (\<lambda>config. config
                                \<lparr>sc_personality_id := Some (spr_personality_id request),
                                 sc_mode := Some ''chat'',
                                 sc_user_id :=
                                   (case user_uuid of
                                      Some v \<Rightarrow> Some v
                                    | None \<Rightarrow> sc_user_id config),
                                 sc_updated_at := Some (utcnow e)\<rparr>)
                             (session_configs d))
                in (Inr \<lparr>sel_message = p_name personality @ SELECTED_SUFFIX,
                          sel_session_id = spr_session_id request,
                          sel_personality_id = p_id personality,
                          sel_personality_name = p_name personality\<rparr>,
                    s\<lparr>db := d\<lparr>session_configs := configs\<rparr>\<rparr>))))"

record StartRoadmapRequest =
  srr_session_id :: string
  srr_user_id :: "string option"

record roadmap_reply =
  rm_message :: string
  rm_session_id :: string
  rm_mode :: string

text \<open>\<open>start_roadmap\<close>, the handler of \<open>POST /chat/roadmap/start\<close> (lines 481-523).\<close>

definition start_roadmap ::
    "env \<Rightarrow> StartRoadmapRequest \<Rightarrow> server \<Rightarrow> (HTTPException + roadmap_reply) \<times> server" where
  "start_roadmap e request s =
     (case (case srr_user_id request of
              None \<Rightarrow> Inr None
            | Some u \<Rightarrow>
                if u = [] then Inr None
                else (case uuid_UUID e u of
                        None \<Rightarrow> Inl (HTTPException 400 BAD_USER_ID_DETAIL)
                      | Some v \<Rightarrow> Inr (Some v))) of
        Inl err \<Rightarrow> (Inl err, s)
      | Inr user_uuid \<Rightarrow>
          (let d = db s;
               configs =
                 (case get_session_config (srr_session_id request) d of
                    None \<Rightarrow>
                      session_configs d @
                        [\<lparr>sc_session_id = srr_session_id request,
                          sc_user_id = user_uuid,
                          sc_personality_id = None,
                          sc_mode = Some ''roadmap'',
                          sc_created_at = Some (utcnow e),
                          sc_updated_at = Some (utcnow e)\<rparr>]
                  | Some _ \<Rightarrow>
                      update_first (\<lambda>c. sc_session_id c = srr_session_id request)
                        (\<lambda>config. config
                           \<lparr>sc_mode := Some ''roadmap'',
                            sc_user_id :=
                              (case user_uuid of
                                 Some v \<Rightarrow> Some v
                               | None \<Rightarrow> sc_user_id config),
                            sc_updated_at := Some (utcnow e)\<rparr>)
                        (session_configs d))
           in (Inr \<lparr>rm_message = ROADMAP_STARTED_MESSAGE,
                     rm_session_id = srr_session_id request,
                     rm_mode = ''roadmap''\<rparr>,
               s\<lparr>db := d\<lparr>session_configs := configs\<rparr>,
                 conversation_history := (conversation_history s) (srr_session_id request := None)\<rparr>)))"

text \<open>
  \<open>get_user_sessions\<close>, the handler of \<open>GET /sessions/user/{user_id}\<close> (lines 385-407).
  The reply lists the rows; their rendering as dictionaries is not modelled.
\<close>

definition get_user_sessions ::
    "env \<Rightarrow> string \<Rightarrow> server \<Rightarrow> HTTPException + string \<times> SessionConfig list" where
  "get_user_sessions e user_id s =
     (case uuid_UUID e user_id of
        None \<Rightarrow> Inl (HTTPException 400 BAD_USER_ID_DETAIL)
      | Some user_uuid \<Rightarrow>
          Inr (user_id, filter (\<lambda>c. sc_user_id c = Some user_uuid) (session_configs (db s))))"

section \<open>Message log\<close>

text \<open>\<open>generate_embedding\<close> (lines 91-110): any failure and an empty vector both give \<open>None\<close>.\<close>

definition generate_embedding :: "env \<Rightarrow> string \<Rightarrow> real list option" where
  "generate_embedding e text =
     (case invoke_embedding e text of
        Inl _ \<Rightarrow> None
      | Inr embedding \<Rightarrow> if embedding \<noteq> [] then Some embedding else None)"

text \<open>
  \<open>save_conversation_message\<close> (lines 113-158), called with the handler's session. The
  row gets the next id of the sequence and the column default \<open>utcnow\<close>; a malformed
  \<open>user_id\<close> is stored as \<open>NULL\<close>.
\<close>

definition save_conversation_message ::
    "env \<Rightarrow> string \<Rightarrow> string \<Rightarrow> string \<Rightarrow> string option \<Rightarrow> database \<Rightarrow> database" where
  "save_conversation_message e session_id role content user_id d =
     (let embedding = generate_embedding e content;
          user_uuid =
            (case user_id of
               None \<Rightarrow> None
             | Some u \<Rightarrow> if u = [] then None else uuid_UUID e u);
          message =
            \<lparr>cm_id = next_message_id d,
             cm_session_id = session_id,
             cm_user_id = user_uuid,
             cm_role = role,
             cm_content = content,
             cm_embedding = embedding,
             cm_created_at = Some (utcnow e)\<rparr>
      in d\<lparr>conversation_messages := conversation_messages d @ [message],
           next_message_id := next_message_id d + 1\<rparr>)"

section \<open>Conversation turns\<close>

text \<open>
  An entry of a caller-supplied \<open>conversation_history\<close>: a dictionary, of which only the
  keys \<open>"role"\<close> and \<open>"content"\<close> matter, or (on the WebSocket) any other JSON value.
\<close>

datatype hist_item = HistDict "string option" "string option" | HistOther

text \<open>The loop that keeps the dictionaries holding both keys.\<close>

fun history_messages :: "hist_item list \<Rightarrow> chat_msg list" where
  "history_messages [] = []"
| "history_messages (HistDict (Some r) (Some c) # rest) =
     \<lparr>msg_role = r, msg_content = c\<rparr> # history_messages rest"
| "history_messages (_ # rest) = history_messages rest"

text \<open>
  The transcript both handlers build before they call the model: the supplied history if
  it is non-empty, else the cached transcript of the session, else nothing; then the new
  user message. (Cached transcripts are written by the handlers only, so each of their
  entries holds both keys and passes the loop's test.)
\<close>

definition assemble_messages ::
    "hist_item list option \<Rightarrow> (string \<rightharpoonup> chat_msg list) \<Rightarrow> string \<Rightarrow> string \<Rightarrow> chat_msg list" where
  "assemble_messages history cache session_id message =
     (let stored = (case cache session_id of Some stored_messages \<Rightarrow> stored_messages | None \<Rightarrow> [])
      in (case history of
            None \<Rightarrow> stored
          | Some h \<Rightarrow> if h \<noteq> [] then history_messages h else stored)
         @ [\<lparr>msg_role = ''user'', msg_content = message\<rparr>])"

text \<open>The slice \<open>messages[-50:]\<close>, taken when there are more than 50 messages.\<close>

definition keep_last_50 :: "chat_msg list \<Rightarrow> chat_msg list" where
  "keep_last_50 messages =
     (if length messages > 50 then drop (length messages - 50) messages else messages)"

record ChatRequest =
  cr_message :: string
  cr_session_id :: "string option"
  cr_user_id :: "string option"
  cr_model_id :: "string option"
  cr_max_tokens :: "int option"
  cr_temperature :: "real option"
  cr_conversation_history :: "hist_item list option"

record ChatResponse =
  resp_response :: string
  resp_model_id :: string
  resp_session_id :: string

text \<open>The session id of a turn: the one supplied, or a fresh one when it is absent or empty.\<close>

definition session_id_or_new :: "env \<Rightarrow> string option \<Rightarrow> string" where
  "session_id_or_new e session_id =
     (case session_id of
        None \<Rightarrow> uuid4 e
      | Some x \<Rightarrow> if x = [] then uuid4 e else x)"

text \<open>
  The first part of \<open>chat\<close> (lines 535-553): a well-formed \<open>user_id\<close> creates the session
  row or fills its empty \<open>user_id\<close>; a malformed one is ignored.
\<close>

definition attach_user :: "env \<Rightarrow> string \<Rightarrow> string option \<Rightarrow> database \<Rightarrow> database" where
  "attach_user e session_id user_id d =
     (case user_id of
        None \<Rightarrow> d
      | Some u \<Rightarrow>
          if u = [] then d
          else (case uuid_UUID e u of
                  None \<Rightarrow> d
                | Some user_uuid \<Rightarrow>
                    (case get_session_config session_id d of
                       None \<Rightarrow>
                         d\<lparr>session_configs := session_configs d @
                             [\<lparr>sc_session_id = session_id,
                               sc_user_id = Some user_uuid,
                               sc_personality_id = None,
                               sc_mode = Some ''chat'',
                               sc_created_at = Some (utcnow e),
                               sc_updated_at = Some (utcnow e)\<rparr>]\<rparr>
                     | Some config \<Rightarrow>
                         if sc_user_id config = None
                         then d\<lparr>session_configs :=
                                  update_first (\<lambda>c. sc_session_id c = session_id)
                                    (\<lambda>c. c\<lparr>sc_user_id := Some user_uuid,
                                            sc_updated_at := Some (utcnow e)\<rparr>)
                                    (session_configs d)\<rparr>
                         else d)))"

text \<open>
  \<open>chat\<close>, the handler of \<open>POST /chat\<close> (lines 526-639). Every exception raised in its body
  becomes a 500 response; the database keeps what was committed before. The reply model
  requires a \<open>model_id\<close>, so building it for a request whose \<open>model_id\<close> is null fails too.
\<close>

definition chat :: "env \<Rightarrow> ChatRequest \<Rightarrow> server \<Rightarrow> (HTTPException + ChatResponse) \<times> server" where
  "chat e request s =
     (let session_id = session_id_or_new e (cr_session_id request);
          d1 = attach_user e session_id (cr_user_id request) (db s);
          system_prompt = get_system_prompt session_id d1;
          messages =
            assemble_messages (cr_conversation_history request) (conversation_history s)
              session_id (cr_message request);
          d2 = save_conversation_message e session_id ''user'' (cr_message request)
                 (cr_user_id request) d1;
          body = \<lparr>pl_max_tokens = cr_max_tokens request,
                  pl_temperature = cr_temperature request,
                  pl_system = system_prompt,
                  pl_messages = messages\<rparr>
      in case invoke_model e (cr_model_id request) body of
           Inl ex \<Rightarrow> (Inl (HTTPException 500 (BEDROCK_ERROR_PREFIX @ str_exn ex)), s\<lparr>db := d2\<rparr>)
         | Inr [] \<Rightarrow>
             (Inl (HTTPException 500
                    (BEDROCK_ERROR_PREFIX @ str_exn (IndexError ''list index out of range''))),
              s\<lparr>db := d2\<rparr>)
         | Inr (block # _) \<Rightarrow>
             (let assistant_message = (case block of Some t \<Rightarrow> t | None \<Rightarrow> []);
                  d3 = save_conversation_message e session_id ''assistant'' assistant_message
                         (cr_user_id request) d2;
                  s' = s\<lparr>db := d3,
                         conversation_history := (conversation_history s)
                           (session_id \<mapsto>
                              keep_last_50
                                (messages @ [\<lparr>msg_role = ''assistant'', msg_content = assistant_message\<rparr>]))\<rparr>
              in case cr_model_id request of
                   None \<Rightarrow>
                     (Inl (HTTPException 500
                            (BEDROCK_ERROR_PREFIX @ str_exn (ValueError ''model_id''))), s')
                 | Some model_id \<Rightarrow>
                     (Inr \<lparr>resp_response = assistant_message,
                           resp_model_id = model_id,
                           resp_session_id = session_id\<rparr>, s')))"

text \<open>The body that \<open>chat\<close> sends to the completion model, as a function of its own.\<close>

definition chat_body :: "env \<Rightarrow> ChatRequest \<Rightarrow> server \<Rightarrow> payload" where
  "chat_body e request s =
     (let session_id = session_id_or_new e (cr_session_id request);
          d1 = attach_user e session_id (cr_user_id request) (db s)
      in \<lparr>pl_max_tokens = cr_max_tokens request,
          pl_temperature = cr_temperature request,
          pl_system = get_system_prompt session_id d1,
          pl_messages =
            assemble_messages (cr_conversation_history request) (conversation_history s)
              session_id (cr_message request)\<rparr>)"

text \<open>
  One round of the loop of \<open>websocket_chat\<close> (lines 682-810): a received text is malformed
  JSON or an object, whose absent keys are \<open>None\<close> here; the round sends frames and updates
  the state.
\<close>

record ws_request =
  w_message :: "string option"
  w_session_id :: "string option"
  w_user_id :: "string option"
  w_model_id :: "string option"
  w_max_tokens :: "int option"
  w_temperature :: "real option"
  w_conversation_history :: "hist_item list option"

datatype ws_data = Malformed | Object ws_request

datatype ws_frame =
    SessionFrame string
  | MessageFrame string string string
  | ErrorFrame string

definition websocket_round :: "env \<Rightarrow> ws_data \<Rightarrow> server \<Rightarrow> ws_frame list \<times> server" where
  "websocket_round e data s =
     (case data of
        Malformed \<Rightarrow> ([ErrorFrame BAD_JSON_ERROR], s)
      | Object request_data \<Rightarrow>
          (let message = (case w_message request_data of Some m \<Rightarrow> m | None \<Rightarrow> [])
           in if message = [] then ([ErrorFrame EMPTY_MESSAGE_ERROR], s)
              else
                (let fresh = \<not> truthy (w_session_id request_data);
                     session_id = session_id_or_new e (w_session_id request_data);
                     sent = (if fresh then [SessionFrame session_id] else []);
                     model_id =
                       (case w_model_id request_data of Some m \<Rightarrow> m | None \<Rightarrow> DEFAULT_MODEL_ID);
                     max_tokens =
                       (case w_max_tokens request_data of Some n \<Rightarrow> n | None \<Rightarrow> 4096);
                     temperature =
                       (case w_temperature request_data of Some t \<Rightarrow> t | None \<Rightarrow> 7 / 10);
                     system_prompt = get_system_prompt session_id (db s);
                     messages =
                       assemble_messages (w_conversation_history request_data)
                         (conversation_history s) session_id message;
                     d2 = save_conversation_message e session_id ''user'' message
                            (w_user_id request_data) (db s);
                     body = \<lparr>pl_max_tokens = Some max_tokens,
                             pl_temperature = Some temperature,
                             pl_system = system_prompt,
                             pl_messages = messages\<rparr>
                 in case invoke_model e (Some model_id) body of
                      Inl ex \<Rightarrow>
                        (sent @ [ErrorFrame (PROCESSING_ERROR_PREFIX @ str_exn ex)], s\<lparr>db := d2\<rparr>)
                    | Inr [] \<Rightarrow>
                        (sent @ [ErrorFrame (PROCESSING_ERROR_PREFIX @
                                   str_exn (IndexError ''list index out of range''))],
                         s\<lparr>db := d2\<rparr>)
                    | Inr (block # _) \<Rightarrow>
                        (let assistant_message = (case block of Some t \<Rightarrow> t | None \<Rightarrow> []);
                             d3 = save_conversation_message e session_id ''assistant''
                                    assistant_message (w_user_id request_data) d2
                         in (sent @ [MessageFrame assistant_message model_id session_id],
                             s\<lparr>db := d3,
                               conversation_history := (conversation_history s)
                                 (session_id \<mapsto>
                                    keep_last_50
                                      (messages @
                                         [\<lparr>msg_role = ''assistant'',
                                           msg_content = assistant_message\<rparr>]))\<rparr>)))))"

section \<open>Similarity search\<close>

text \<open>
  \<open>sorted(xs, key=..., reverse=True)\<close> and \<open>xs.sort(key=..., reverse=True)\<close> on float keys:
  a stable sort into descending order, written as an insertion sort that compares with
  \<open><\<close> only. Python promises this order when the keys are totally ordered, which floats
  are as long as none of them is \<open>NaN\<close>; the theorems on the order of results assume that.
\<close>

fun insort_desc :: "('a \<Rightarrow> npfloat) \<Rightarrow> 'a \<Rightarrow> 'a list \<Rightarrow> 'a list" where
  "insort_desc key x [] = [x]"
| "insort_desc key x (y # ys) =
     (if np_lt (key x) (key y) then y # insort_desc key x ys else x # y # ys)"

definition sort_desc :: "('a \<Rightarrow> npfloat) \<Rightarrow> 'a list \<Rightarrow> 'a list" where
  "sort_desc key xs = foldr (insort_desc key) xs []"

text \<open>
  The slice \<open>xs[:limit]\<close>: everything for \<open>None\<close>, the first \<open>limit\<close> entries for a
  non-negative \<open>limit\<close>, all but the last \<open>-limit\<close> entries for a negative one.
\<close>

definition slice_to :: "int option \<Rightarrow> 'a list \<Rightarrow> 'a list" where
  "slice_to limit xs =
     (case limit of
        None \<Rightarrow> xs
      | Some k \<Rightarrow> if 0 \<le> k then take (nat k) xs else take (nat (int (length xs) + k)) xs)"

record search_result =
  res_id :: int
  res_session_id :: string
  res_role :: string
  res_content :: string
  res_similarity :: npfloat
  res_created_at :: "timestamp option"

text \<open>The similarity reported for a row: \<open>float(row[6]) if row[6] is not None else 0.0\<close>.\<close>

definition row_similarity :: "similarity_row \<Rightarrow> npfloat" where
  "row_similarity row = (case r_similarity row of Some x \<Rightarrow> x | None \<Rightarrow> Fin 0)"

definition row_result :: "similarity_row \<Rightarrow> search_result" where
  "row_result row =
     \<lparr>res_id = r_id row,
      res_session_id = r_session_id row,
      res_role = r_role row,
      res_content = r_content row,
      res_similarity = row_similarity row,
      res_created_at = r_created_at row\<rparr>"

text \<open>
  \<open>sorted(rows, key=lambda x: x[6], reverse=True)\<close>: comparing a \<open>None\<close> key raises
  \<open>TypeError\<close>, which happens as soon as there are two rows and one key is \<open>None\<close>. A single
  row is never compared, so the key given to its \<open>None\<close> is immaterial.
\<close>

definition sorted_rows :: "similarity_row list \<Rightarrow> exn + similarity_row list" where
  "sorted_rows rows =
     (if 2 \<le> length rows \<and> list_ex (\<lambda>row. r_similarity row = None) rows
      then Inl (TypeError ''< not supported between instances of NoneType and float'')
      else Inr (sort_desc row_similarity rows))"

text \<open>
  The database-native path (lines 181-226). The handler of \<open>ValueError\<close> executes whatever
  \<open>sql_query\<close> holds with the query vector alone: the unfiltered statement when
  \<open>uuid.UUID\<close> raised, the filtered one, already assigned, when its own execution raised.
\<close>

definition native_search ::
    "env \<Rightarrow> real list \<Rightarrow> string option \<Rightarrow> int option \<Rightarrow> exn + search_result list" where
  "native_search e query_embedding user_id limit =
     (let unfiltered = db_execute e (SimilarityAll query_embedding);
          result =
            (case user_id of
               None \<Rightarrow> unfiltered
             | Some u \<Rightarrow>
                 if u = [] then unfiltered
                 else (case uuid_UUID e u of
                         None \<Rightarrow> unfiltered
                       | Some user_uuid \<Rightarrow>
                           (case db_execute e (SimilarityOfUser query_embedding user_uuid) of
                              Inl (ValueError _) \<Rightarrow>
                                db_execute e (SimilarityOfUserUnbound query_embedding)
                            | r \<Rightarrow> r)))
      in case result of
           Inl ex \<Rightarrow> Inl ex
         | Inr rows \<Rightarrow>
             (case sorted_rows rows of
                Inl ex \<Rightarrow> Inl ex
              | Inr ordered \<Rightarrow> Inr (map row_result (slice_to limit ordered))))"

text \<open>
  The loop of the fallback (lines 247-259): messages with an empty embedding are skipped,
  the first \<open>np.dot\<close> on vectors of different lengths ends the loop with its exception.
\<close>

definition cosine_sim :: "real list \<Rightarrow> real list \<Rightarrow> exn + npfloat" where
  "cosine_sim query_vec msg_vec =
     (case np_dot query_vec msg_vec of
        Inl ex \<Rightarrow> Inl ex
      | Inr dp \<Rightarrow> Inr (np_div dp (np_norm query_vec * np_norm msg_vec)))"

fun similarities ::
    "real list \<Rightarrow> ConversationMessage list \<Rightarrow> exn + (ConversationMessage \<times> npfloat) list" where
  "similarities query_vec [] = Inr []"
| "similarities query_vec (msg # rest) =
     (case cm_embedding msg of
        None \<Rightarrow> similarities query_vec rest
      | Some v \<Rightarrow>
          if v = [] then similarities query_vec rest
          else (case cosine_sim query_vec v of
                  Inl ex \<Rightarrow> Inl ex
                | Inr c \<Rightarrow>
                    (case similarities query_vec rest of
                       Inl ex \<Rightarrow> Inl ex
                     | Inr sims \<Rightarrow> Inr ((msg, c) # sims))))"

definition item_result :: "ConversationMessage \<times> npfloat \<Rightarrow> search_result" where
  "item_result item =
     \<lparr>res_id = cm_id (fst item),
      res_session_id = cm_session_id (fst item),
      res_role = cm_role (fst item),
      res_content = cm_content (fst item),
      res_similarity = snd item,
      res_created_at = cm_created_at (fst item)\<rparr>"

text \<open>The candidates of the fallback: the ORM query with its optional user filter.\<close>

definition candidate_messages ::
    "env \<Rightarrow> string option \<Rightarrow> database \<Rightarrow> ConversationMessage list" where
  "candidate_messages e user_id d =
     (let messages = filter (\<lambda>m. cm_embedding m \<noteq> None) (conversation_messages d)
      in case user_id of
           None \<Rightarrow> messages
         | Some u \<Rightarrow>
             if u = [] then messages
             else (case uuid_UUID e u of
                     None \<Rightarrow> messages
                   | Some user_uuid \<Rightarrow> filter (\<lambda>m. cm_user_id m = Some user_uuid) messages))"

text \<open>The in-process fallback (lines 232-275).\<close>

definition fallback_search ::
    "env \<Rightarrow> real list \<Rightarrow> string option \<Rightarrow> int option \<Rightarrow> database \<Rightarrow> exn + search_result list" where
  "fallback_search e query_embedding user_id limit d =
     (case orm_error e of
        Some ex \<Rightarrow> Inl ex
      | None \<Rightarrow>
          (case similarities query_embedding (candidate_messages e user_id d) of
             Inl ex \<Rightarrow> Inl ex
           | Inr sims \<Rightarrow> Inr (map item_result (slice_to limit (sort_desc snd sims)))))"

text \<open>
  \<open>search_similar_messages\<close> (lines 161-281), called with the handler's session. The result
  is a sum so that an exception leaving the function would show as \<open>Inl\<close>.
\<close>

definition search_similar_messages ::
    "env \<Rightarrow> string \<Rightarrow> string option \<Rightarrow> int option \<Rightarrow> database \<Rightarrow> exn + search_result list" where
  "search_similar_messages e query user_id limit d =
     (case generate_embedding e query of
        None \<Rightarrow> Inr []
      | Some query_embedding \<Rightarrow>
          (case native_search e query_embedding user_id limit of
             Inr results \<Rightarrow> Inr results
           | Inl _ \<Rightarrow>
               (case fallback_search e query_embedding user_id limit d of
                  Inr results \<Rightarrow> Inr results
                | Inl _ \<Rightarrow> Inr [])))"

record SearchRequest =
  sq_query :: string
  sq_user_id :: "string option"
  sq_limit :: "int option"

text \<open>\<open>search_conversations\<close>, the handler of \<open>POST /chat/search\<close> (lines 651-668).\<close>

definition search_conversations ::
    "env \<Rightarrow> SearchRequest \<Rightarrow> server \<Rightarrow> HTTPException + string \<times> search_result list \<times> nat" where
  "search_conversations e request s =
     (case search_similar_messages e (sq_query request) (sq_user_id request) (sq_limit request)
             (db s) of
        Inl ex \<Rightarrow> Inl (HTTPException 500 (SEARCH_ERROR_PREFIX @ str_exn ex))
      | Inr results \<Rightarrow> Inr (sq_query request, results, length results))"

section \<open>The resolution policy in the words of the specification\<close>



section \<open>Example states and requests\<close>

definition example_personalities :: "Personality list" where
  "example_personalities =
     [\<lparr>p_id = 0, p_name = ''Zero'', p_description = None, p_system_prompt = ''Z''\<rparr>,
      \<lparr>p_id = 1, p_name = DEFAULT_PERSONALITY_NAME, p_description = None,
       p_system_prompt = ''B''\<rparr>,
      \<lparr>p_id = 2, p_name = ''Alpha'', p_description = None, p_system_prompt = ''A''\<rparr>]"

definition example_db :: database where
  "example_db =
     \<lparr>personalities = example_personalities,
      session_configs =
        [\<lparr>sc_session_id = ''s0'', sc_user_id = None, sc_personality_id = Some 0,
          sc_mode = Some ''chat'', sc_created_at = Some 0, sc_updated_at = Some 0\<rparr>,
         \<lparr>sc_session_id = ''s2'', sc_user_id = Some 1, sc_personality_id = Some 2,
          sc_mode = Some ''chat'', sc_created_at = Some 0, sc_updated_at = Some 0\<rparr>],
      conversation_messages = [],
      next_message_id = 1\<rparr>"

text \<open>
  An environment in which two strings are well-formed UUIDs, both models answer, and the
  database has no vector operator.
\<close>

definition example_env :: env where
  "example_env =
     \<lparr>uuid_UUID = (\<lambda>s. if s = ''00000000-0000-0000-0000-000000000001'' then Some 1
                       else if s = ''00000000-0000-0000-0000-000000000002'' then Some 2
                       else None),
      uuid4 = ''7d444840-9dc0-11d1-b245-5ffdce74fad2'',
      utcnow = 100,
      invoke_embedding = (\<lambda>text. Inr [1, 0]),
      invoke_model = (\<lambda>model_id body. Inr [Some ''hello'']),
      db_execute = (\<lambda>q. Inl (DatabaseError ''operator does not exist'')),
      orm_error = None\<rparr>"

definition example_server :: server where
  "example_server =
     \<lparr>db = example_db,
      conversation_history =
        [''s0'' \<mapsto> [\<lparr>msg_role = ''user'', msg_content = ''hi''\<rparr>,
                  \<lparr>msg_role = ''assistant'', msg_content = ''hello''\<rparr>],
         ''s2'' \<mapsto> [\<lparr>msg_role = ''user'', msg_content = ''question''\<rparr>,
                  \<lparr>msg_role = ''assistant'', msg_content = ''answer''\<rparr>]]\<rparr>"

definition select_request :: SelectPersonalityRequest where
  "select_request =
     \<lparr>spr_session_id = ''s2'', spr_personality_id = 2,
      spr_user_id = Some ''00000000-0000-0000-0000-000000000002''\<rparr>"

definition chat_request :: ChatRequest where
  "chat_request =
     \<lparr>cr_message = ''next'', cr_session_id = Some ''s2'', cr_user_id = Some ''not-a-uuid'',
      cr_model_id = Some DEFAULT_MODEL_ID, cr_max_tokens = Some 4096,
      cr_temperature = Some (7 / 10), cr_conversation_history = None\<rparr>"

definition roadmap_request :: StartRoadmapRequest where
  "roadmap_request = \<lparr>srr_session_id = ''s2'', srr_user_id = None\<rparr>"

definition after_roadmap :: server where
  "after_roadmap = snd (start_roadmap example_env roadmap_request example_server)"


text \<open>A server whose cached transcript of session \<open>s2\<close> is full.\<close>

definition old_message :: chat_msg where
  "old_message = \<lparr>msg_role = ''user'', msg_content = ''old''\<rparr>"

definition busy_server :: server where
  "busy_server =
     example_server\<lparr>conversation_history := [''s2'' \<mapsto> replicate 50 old_message]\<rparr>"

definition ws_request_example :: ws_request where
  "ws_request_example =
     \<lparr>w_message = Some ''next'', w_session_id = Some ''s2'', w_user_id = None,
      w_model_id = None, w_max_tokens = None, w_temperature = None,
      w_conversation_history = None\<rparr>"

text \<open>
  Message tables for the search: three unit vectors and a row without embedding; a single
  zero vector; a zero vector between two unit vectors; a vector of another dimension.
\<close>

definition search_db :: database where
  "search_db =
     example_db\<lparr>conversation_messages :=
       [\<lparr>cm_id = 1, cm_session_id = ''s0'', cm_user_id = Some 1, cm_role = ''user'',
         cm_content = ''north'', cm_embedding = Some [0, 1], cm_created_at = Some 10\<rparr>,
        \<lparr>cm_id = 2, cm_session_id = ''s2'', cm_user_id = Some 2, cm_role = ''user'',
         cm_content = ''east'', cm_embedding = Some [1, 0], cm_created_at = Some 20\<rparr>,
        \<lparr>cm_id = 3, cm_session_id = ''s2'', cm_user_id = None, cm_role = ''assistant'',
         cm_content = ''west'', cm_embedding = Some [- 1, 0], cm_created_at = Some 30\<rparr>,
        \<lparr>cm_id = 4, cm_session_id = ''s2'', cm_user_id = None, cm_role = ''assistant'',
         cm_content = ''nowhere'', cm_embedding = None, cm_created_at = Some 40\<rparr>],
       next_message_id := 5\<rparr>"



definition mixed_db :: database where
  "mixed_db =
     example_db\<lparr>conversation_messages :=
       [\<lparr>cm_id = 1, cm_session_id = ''s0'', cm_user_id = None, cm_role = ''user'',
         cm_content = ''north'', cm_embedding = Some [0, 1], cm_created_at = Some 10\<rparr>,
        \<lparr>cm_id = 2, cm_session_id = ''s0'', cm_user_id = None, cm_role = ''user'',
         cm_content = ''origin'', cm_embedding = Some [0, 0], cm_created_at = Some 20\<rparr>,
        \<lparr>cm_id = 3, cm_session_id = ''s0'', cm_user_id = None, cm_role = ''user'',
         cm_content = ''east'', cm_embedding = Some [1, 0], cm_created_at = Some 30\<rparr>],
       next_message_id := 4\<rparr>"

definition mismatch_db :: database where
  "mismatch_db =
     example_db\<lparr>conversation_messages :=
       [\<lparr>cm_id = 1, cm_session_id = ''s0'', cm_user_id = None, cm_role = ''user'',
         cm_content = ''cube'', cm_embedding = Some [1, 2, 3], cm_created_at = Some 10\<rparr>],
       next_message_id := 2\<rparr>"

text \<open>An environment without embedding model, and one whose database answers the vector query.\<close>

definition silent_env :: env where
  "silent_env =
     example_env\<lparr>invoke_embedding := (\<lambda>text. Inl (ClientError ''unavailable''))\<rparr>"



text \<open>What the fallback finds in \<open>search_db\<close> for a query embedded as \<open>[1, 0]\<close>.\<close>

definition east_results :: "search_result list" where
  "east_results =
     [\<lparr>res_id = 2, res_session_id = ''s2'', res_role = ''user'', res_content = ''east'',
       res_similarity = Fin 1, res_created_at = Some 20\<rparr>,
      \<lparr>res_id = 1, res_session_id = ''s0'', res_role = ''user'', res_content = ''north'',
       res_similarity = Fin 0, res_created_at = Some 10\<rparr>,
      \<lparr>res_id = 3, res_session_id = ''s2'', res_role = ''assistant'', res_content = ''west'',
       res_similarity = Fin (- 1), res_created_at = Some 30\<rparr>]"


section \<open>Auxiliary facts\<close>

lemmas example_defs =
  example_server_def example_db_def example_personalities_def example_env_def

lemma find_update_first:
  "(\<And>x. P x \<Longrightarrow> P (f x)) \<Longrightarrow> find P (update_first P f xs) = map_option f (find P xs)"
  by (induction xs) auto




lemma keep_last_50_drop: "keep_last_50 ms = drop (length ms - 50) ms"
  by (simp add: keep_last_50_def)

lemma start_roadmap_history:
  "start_roadmap e request s = (Inr reply, s') \<Longrightarrow>
   conversation_history s' = (conversation_history s) (srr_session_id request := None)"
  by (auto simp: start_roadmap_def Let_def split: option.splits sum.splits if_splits)

text \<open>What a successful \<open>chat\<close> leaves in the cache.\<close>

lemma chat_success_history:
  assumes "chat e request s = (Inr resp, s')"
  shows "resp_session_id resp = session_id_or_new e (cr_session_id request) \<and>
         conversation_history s' =
           (conversation_history s)
             (resp_session_id resp \<mapsto>
                keep_last_50
                  (assemble_messages (cr_conversation_history request) (conversation_history s)
                     (resp_session_id resp) (cr_message request) @
                   [\<lparr>msg_role = ''assistant'', msg_content = resp_response resp\<rparr>]))"
  using assms
  by (auto simp: chat_def Let_def split: sum.splits list.splits option.splits)

text \<open>What a WebSocket round that ends with a message frame leaves in the cache.\<close>

lemma websocket_round_success_history:
  assumes "websocket_round e (Object request_data) s =
             (sent @ [MessageFrame answer model_id session_id], s')"
  shows "\<exists>message. w_message request_data = Some message \<and>
         conversation_history s' =
           (conversation_history s)
             (session_id \<mapsto>
                keep_last_50
                  (assemble_messages (w_conversation_history request_data)
                     (conversation_history s) session_id message @
                   [\<lparr>msg_role = ''assistant'', msg_content = answer\<rparr>]))"
  using assms
  by (auto simp: websocket_round_def Let_def
      split: sum.splits list.splits option.splits if_splits)

text \<open>
  The bound on cached transcripts is an invariant of both turn handlers, whatever the
  outcome of the turn.
\<close>

lemma length_keep_last_50: "length (keep_last_50 ms) \<le> 50"
  by (simp add: keep_last_50_def)

lemma chat_keeps_cache_bound:
  assumes "\<forall>sid t. conversation_history s sid = Some t \<longrightarrow> length t \<le> 50"
    and "conversation_history (snd (chat e request s)) session_id = Some transcript"
  shows "length transcript \<le> 50"
  using assms length_keep_last_50
  by (auto simp: chat_def Let_def split: sum.splits list.splits option.splits if_splits)

lemma websocket_round_keeps_cache_bound:
  assumes "\<forall>sid t. conversation_history s sid = Some t \<longrightarrow> length t \<le> 50"
    and "conversation_history (snd (websocket_round e data s)) session_id = Some transcript"
  shows "length transcript \<le> 50"
  using assms length_keep_last_50
  by (auto simp: websocket_round_def Let_def
      split: sum.splits list.splits option.splits if_splits ws_data.splits)

text \<open>An empty \<open>user_id\<close> is handled as an absent one, without any error.\<close>

lemma empty_user_id_is_absent:
  "select_personality e (request\<lparr>spr_user_id := Some []\<rparr>) s =
     select_personality e (request\<lparr>spr_user_id := None\<rparr>) s"
  "start_roadmap e (roadmap\<lparr>srr_user_id := Some []\<rparr>) s =
     start_roadmap e (roadmap\<lparr>srr_user_id := None\<rparr>) s"
  by (simp_all add: select_personality_def start_roadmap_def Let_def split: option.splits)

section \<open>Auxiliary facts on floats, sorting and the fallback loop\<close>





lemma length_insort_desc: "length (insort_desc key x ys) = Suc (length ys)"
  by (induction ys) auto



lemma length_sort_desc: "length (sort_desc key xs) = length xs"
  by (induction xs) (auto simp: sort_desc_def length_insort_desc)











lemma np_norm_examples [simp]:
  "np_norm [1, 0] = 1" "np_norm [0, 1] = 1" "np_norm [- 1, 0] = 1" "np_norm [0, 0] = 0"
  by (simp_all add: np_norm_def)

lemma candidate_messages_malformed:
  "uuid_UUID e u = None \<Longrightarrow> candidate_messages e (Some u) d = candidate_messages e None d"
  by (simp add: candidate_messages_def Let_def)

lemma native_search_malformed:
  "uuid_UUID e u = None \<Longrightarrow> native_search e q (Some u) limit = native_search e q None limit"
  by (simp add: native_search_def Let_def)

lemma fallback_search_malformed:
  "uuid_UUID e u = None \<Longrightarrow>
   fallback_search e q (Some u) limit d = fallback_search e q None limit d"
  by (simp add: fallback_search_def candidate_messages_malformed cong: option.case_cong)



text \<open>The fallback on \<open>search_db\<close>: the three embedded messages, best first.\<close>

lemma fallback_example:
  "search_similar_messages example_env ''east'' None (Some 5) search_db = Inr east_results"
  by (simp add: search_similar_messages_def generate_embedding_def native_search_def
      fallback_search_def candidate_messages_def cosine_sim_def np_dot_def np_div_def
      sort_desc_def slice_to_def item_result_def example_env_def search_db_def
      east_results_def)


section \<open>The effective system prompt\<close>




section \<open>Zero vectors\<close>




section \<open>The search never raises\<close>

text \<open>
  Claim C3. \<open>search_similar_messages\<close> always returns a list: the empty one when the query
  has no embedding, and the empty one when the database-native path and the fallback both
  fail.
\<close>

theorem search_never_raises:
  "(\<exists>results. search_similar_messages e query user_id limit d = Inr results) \<and>
   (generate_embedding e query = None \<longrightarrow>
      search_similar_messages e query user_id limit d = Inr []) \<and>
   (\<forall>q ex1 ex2.
      generate_embedding e query = Some q \<longrightarrow>
      native_search e q user_id limit = Inl ex1 \<longrightarrow>
      fallback_search e q user_id limit d = Inl ex2 \<longrightarrow>
      search_similar_messages e query user_id limit d = Inr [])"
  by (auto simp: search_similar_messages_def split: option.splits sum.splits)

text \<open>
  Both cases: no embedding model; and a database without vector operator whose only stored
  embedding has another dimension than the query's.
\<close>

theorem search_never_raises_witness:
  "generate_embedding silent_env ''east'' = None \<and>
   search_similar_messages silent_env ''east'' None (Some 5) search_db = Inr [] \<and>
   generate_embedding example_env ''east'' = Some [1, 0] \<and>
   native_search example_env [1, 0] None (Some 5) =
     Inl (DatabaseError ''operator does not exist'') \<and>
   fallback_search example_env [1, 0] None (Some 5) mismatch_db =
     Inl (ValueError ''shapes not aligned'') \<and>
   search_similar_messages example_env ''east'' None (Some 5) mismatch_db = Inr []"
proof -
  have h1: "generate_embedding silent_env ''east'' = None"
    by (simp add: generate_embedding_def silent_env_def)
  have h2: "generate_embedding example_env ''east'' = Some [1, 0]"
    by (simp add: generate_embedding_def example_env_def)
  have h3: "native_search example_env [1, 0] None (Some 5) =
     Inl (DatabaseError ''operator does not exist'')"
    by (simp add: native_search_def example_env_def)
  have h4: "fallback_search example_env [1, 0] None (Some 5) mismatch_db =
     Inl (ValueError ''shapes not aligned'')"
    by (simp add: fallback_search_def candidate_messages_def cosine_sim_def np_dot_def
        example_env_def mismatch_db_def)
  from search_never_raises [of silent_env "''east''" None "Some 5" search_db] h1
  have a: "search_similar_messages silent_env ''east'' None (Some 5) search_db = Inr []"
    by blast
  from search_never_raises [of example_env "''east''" None "Some 5" mismatch_db] h2 h3 h4
  have b: "search_similar_messages example_env ''east'' None (Some 5) mismatch_db = Inr []"
    by blast
  from a b h1 h2 h3 h4 show ?thesis by simp
qed

section \<open>Order and number of results\<close>




text \<open>
  Why scores must not be \<open>NaN\<close>: every comparison with \<open>NaN\<close> is false, so the sort leaves
  a zero vector stored between two unit vectors where it is, and the better match behind
  the worse one.
\<close>

lemma nan_score_keeps_table_order:
  "search_similar_messages example_env ''east'' None (Some 5) mixed_db =
     Inr [\<lparr>res_id = 1, res_session_id = ''s0'', res_role = ''user'', res_content = ''north'',
           res_similarity = Fin 0, res_created_at = Some 10\<rparr>,
          \<lparr>res_id = 2, res_session_id = ''s0'', res_role = ''user'', res_content = ''origin'',
           res_similarity = NaN, res_created_at = Some 20\<rparr>,
          \<lparr>res_id = 3, res_session_id = ''s0'', res_role = ''user'', res_content = ''east'',
           res_similarity = Fin 1, res_created_at = Some 30\<rparr>]"
  by (simp add: search_similar_messages_def generate_embedding_def native_search_def
      fallback_search_def candidate_messages_def cosine_sim_def np_dot_def np_div_def
      sort_desc_def slice_to_def item_result_def example_env_def mixed_db_def)

section \<open>A failing completion call\<close>



section \<open>The bound on cached transcripts\<close>

text \<open>
  Claim C6. After a completed turn on either surface (\<open>chat\<close> returning a reply, a
  WebSocket round ending with a message frame) the cached transcript of the session is
  the assembled transcript cut to its most recent 50 messages: it has at most 50 entries,
  and exactly 50 when the assembled transcript had more.
\<close>

theorem cached_transcript_at_most_50:
  "(chat e request s = (Inr resp, s') \<longrightarrow>
      (let transcript =
             assemble_messages (cr_conversation_history request) (conversation_history s)
               (resp_session_id resp) (cr_message request) @
             [\<lparr>msg_role = ''assistant'', msg_content = resp_response resp\<rparr>];
           cached = drop (length transcript - 50) transcript
       in conversation_history s' (resp_session_id resp) = Some cached \<and>
          length cached \<le> 50 \<and>
          (50 < length transcript \<longrightarrow> length cached = 50))) \<and>
   (websocket_round e (Object request_data) s =
      (sent @ [MessageFrame answer model_id session_id], s2) \<longrightarrow>
      (let transcript =
             assemble_messages (w_conversation_history request_data) (conversation_history s)
               session_id (case w_message request_data of Some m \<Rightarrow> m | None \<Rightarrow> []) @
             [\<lparr>msg_role = ''assistant'', msg_content = answer\<rparr>];
           cached = drop (length transcript - 50) transcript
       in conversation_history s2 session_id = Some cached \<and>
          length cached \<le> 50 \<and>
          (50 < length transcript \<longrightarrow> length cached = 50)))"
proof (intro conjI impI)
  assume "chat e request s = (Inr resp, s')"
  from chat_success_history [OF this]
  show "(let transcript =
             assemble_messages (cr_conversation_history request) (conversation_history s)
               (resp_session_id resp) (cr_message request) @
             [\<lparr>msg_role = ''assistant'', msg_content = resp_response resp\<rparr>];
           cached = drop (length transcript - 50) transcript
       in conversation_history s' (resp_session_id resp) = Some cached \<and>
          length cached \<le> 50 \<and>
          (50 < length transcript \<longrightarrow> length cached = 50))"
    by (simp add: keep_last_50_drop Let_def)
next
  assume "websocket_round e (Object request_data) s =
      (sent @ [MessageFrame answer model_id session_id], s2)"
  from websocket_round_success_history [OF this]
  show "(let transcript =
             assemble_messages (w_conversation_history request_data) (conversation_history s)
               session_id (case w_message request_data of Some m \<Rightarrow> m | None \<Rightarrow> []) @
             [\<lparr>msg_role = ''assistant'', msg_content = answer\<rparr>];
           cached = drop (length transcript - 50) transcript
       in conversation_history s2 session_id = Some cached \<and>
          length cached \<le> 50 \<and>
          (50 < length transcript \<longrightarrow> length cached = 50))"
    by (auto simp: keep_last_50_drop Let_def)
qed

text \<open>
  A turn on each surface for a session whose cache holds 50 messages: of the 52 assembled
  messages the two oldest are dropped.
\<close>

theorem cached_transcript_at_most_50_witness:
  "fst (chat example_env chat_request busy_server) =
     Inr \<lparr>resp_response = ''hello'', resp_model_id = DEFAULT_MODEL_ID,
          resp_session_id = ''s2''\<rparr> \<and>
   conversation_history (snd (chat example_env chat_request busy_server)) ''s2'' =
     Some (replicate 48 old_message @
           [\<lparr>msg_role = ''user'', msg_content = ''next''\<rparr>,
            \<lparr>msg_role = ''assistant'', msg_content = ''hello''\<rparr>]) \<and>
   fst (websocket_round example_env (Object ws_request_example) busy_server) =
     [] @ [MessageFrame ''hello'' DEFAULT_MODEL_ID ''s2''] \<and>
   conversation_history
     (snd (websocket_round example_env (Object ws_request_example) busy_server)) ''s2'' =
     Some (replicate 48 old_message @
           [\<lparr>msg_role = ''user'', msg_content = ''next''\<rparr>,
            \<lparr>msg_role = ''assistant'', msg_content = ''hello''\<rparr>])"
proof -
  let ?resp = "\<lparr>resp_response = ''hello'', resp_model_id = DEFAULT_MODEL_ID,
                resp_session_id = ''s2''\<rparr>"
  have f1: "fst (chat example_env chat_request busy_server) = Inr ?resp"
    by (simp add: chat_def chat_request_def example_env_def session_id_or_new_def Let_def)
  then have h1: "chat example_env chat_request busy_server =
      (Inr ?resp, snd (chat example_env chat_request busy_server))"
    by (simp add: prod_eq_iff)
  have f2: "fst (websocket_round example_env (Object ws_request_example) busy_server) =
      [] @ [MessageFrame ''hello'' DEFAULT_MODEL_ID ''s2'']"
    by (simp add: websocket_round_def ws_request_example_def example_env_def
        session_id_or_new_def truthy_def Let_def)
  then have h2: "websocket_round example_env (Object ws_request_example) busy_server =
      ([] @ [MessageFrame ''hello'' DEFAULT_MODEL_ID ''s2''],
       snd (websocket_round example_env (Object ws_request_example) busy_server))"
    by (simp add: prod_eq_iff)
  have t: "assemble_messages None (conversation_history busy_server) ''s2'' ''next'' =
      replicate 50 old_message @ [\<lparr>msg_role = ''user'', msg_content = ''next''\<rparr>]"
    by (simp add: assemble_messages_def busy_server_def)
  from cached_transcript_at_most_50
      [where e = example_env and request = chat_request and s = busy_server
        and resp = ?resp and s' = "snd (chat example_env chat_request busy_server)"
        and request_data = ws_request_example and sent = "[]" and answer = "''hello''"
        and model_id = DEFAULT_MODEL_ID and session_id = "''s2''"
        and ?s2.0 = "snd (websocket_round example_env (Object ws_request_example) busy_server)"]
    h1 h2
  have "conversation_history (snd (chat example_env chat_request busy_server)) ''s2'' =
     Some (replicate 48 old_message @
           [\<lparr>msg_role = ''user'', msg_content = ''next''\<rparr>,
            \<lparr>msg_role = ''assistant'', msg_content = ''hello''\<rparr>])"
    and "conversation_history
     (snd (websocket_round example_env (Object ws_request_example) busy_server)) ''s2'' =
     Some (replicate 48 old_message @
           [\<lparr>msg_role = ''user'', msg_content = ''next''\<rparr>,
            \<lparr>msg_role = ''assistant'', msg_content = ''hello''\<rparr>])"
    by (simp_all add: Let_def t chat_request_def ws_request_example_def)
  with f1 f2 show ?thesis by simp
qed

section \<open>The owner of a session\<close>

text \<open>
  Claim C7, as amended. When \<open>select_personality\<close> succeeds on an existing session, a
  supplied non-empty \<open>user_id\<close> becomes the stored user id, whether or not one was stored
  before; the stored user id stays as it was only when no \<open>user_id\<close>, or an empty one, is
  supplied.
\<close>

theorem select_personality_sets_user:
  assumes "get_session_config (spr_session_id request) (db s) = Some config"
    and "select_personality e request s = (Inr reply, s')"
  shows "map_option sc_user_id (get_session_config (spr_session_id request) (db s')) =
           Some (case spr_user_id request of
                   None \<Rightarrow> sc_user_id config
                 | Some u \<Rightarrow> if u = [] then sc_user_id config else uuid_UUID e u)"
  using assms
  by (auto simp: select_personality_def Let_def get_session_config_def find_update_first
      split: option.splits sum.splits if_splits)

theorem select_personality_sets_user_witness:
  "get_session_config ''s2'' (db example_server) =
     Some \<lparr>sc_session_id = ''s2'', sc_user_id = Some 1, sc_personality_id = Some 2,
           sc_mode = Some ''chat'', sc_created_at = Some 0, sc_updated_at = Some 0\<rparr> \<and>
   fst (select_personality example_env select_request example_server) =
     Inr \<lparr>sel_message = ''Alpha'' @ SELECTED_SUFFIX, sel_session_id = ''s2'',
          sel_personality_id = 2, sel_personality_name = ''Alpha''\<rparr> \<and>
   map_option sc_user_id
     (get_session_config ''s2''
        (db (snd (select_personality example_env select_request example_server)))) =
     Some (uuid_UUID example_env ''00000000-0000-0000-0000-000000000002'')"
proof -
  have h1: "get_session_config (spr_session_id select_request) (db example_server) =
     Some \<lparr>sc_session_id = ''s2'', sc_user_id = Some 1, sc_personality_id = Some 2,
           sc_mode = Some ''chat'', sc_created_at = Some 0, sc_updated_at = Some 0\<rparr>"
    by (simp add: get_session_config_def example_defs select_request_def)
  have hf: "fst (select_personality example_env select_request example_server) =
     Inr \<lparr>sel_message = ''Alpha'' @ SELECTED_SUFFIX, sel_session_id = ''s2'',
          sel_personality_id = 2, sel_personality_name = ''Alpha''\<rparr>"
    by (simp add: select_personality_def get_session_config_def example_defs
        select_request_def)
  have h2: "select_personality example_env select_request example_server =
     (Inr \<lparr>sel_message = ''Alpha'' @ SELECTED_SUFFIX, sel_session_id = ''s2'',
          sel_personality_id = 2, sel_personality_name = ''Alpha''\<rparr>,
      snd (select_personality example_env select_request example_server))"
    using hf by (simp add: prod_eq_iff)
  have "map_option sc_user_id
     (get_session_config (spr_session_id select_request)
        (db (snd (select_personality example_env select_request example_server)))) =
     Some (uuid_UUID example_env ''00000000-0000-0000-0000-000000000002'')"
    using select_personality_sets_user [OF h1 h2] by (simp add: select_request_def)
  with h1 hf show ?thesis
    by (simp add: select_request_def)
qed

text \<open>
  Claim C7 as stated fails: session \<open>s2\<close> is owned by user 1, the request names user 2 and
  succeeds, and afterwards the session is owned by user 2.
\<close>

theorem select_personality_replaces_owner:
  "map_option sc_user_id (get_session_config ''s2'' (db example_server)) = Some (Some 1) \<and>
   fst (select_personality example_env select_request example_server) =
     Inr \<lparr>sel_message = ''Alpha'' @ SELECTED_SUFFIX, sel_session_id = ''s2'',
          sel_personality_id = 2, sel_personality_name = ''Alpha''\<rparr> \<and>
   map_option sc_user_id
     (get_session_config ''s2''
        (db (snd (select_personality example_env select_request example_server)))) =
     Some (Some 2)"
  by (simp add: select_personality_def get_session_config_def example_defs select_request_def)

section \<open>Malformed user identifiers\<close>

text \<open>
  Claim C8, as amended. A non-empty \<open>user_id\<close> that is not a well-formed UUID is answered
  with status 400 and the text of \<open>BAD_USER_ID_DETAIL\<close>, the state unchanged, by
  \<open>start_roadmap\<close>, by \<open>get_user_sessions\<close> and, when the requested personality exists, by
  \<open>select_personality\<close> (which answers 404 when it does not). \<open>chat\<close> reports nothing: it
  handles the request exactly as it handles the same request without a \<open>user_id\<close>.
\<close>

theorem malformed_user_id_responses:
  assumes "u \<noteq> []" and "uuid_UUID e u = None"
  shows "start_roadmap e (roadmap\<lparr>srr_user_id := Some u\<rparr>) s =
           (Inl (HTTPException 400 BAD_USER_ID_DETAIL), s) \<and>
         get_user_sessions e u s = Inl (HTTPException 400 BAD_USER_ID_DETAIL) \<and>
         select_personality e (selection\<lparr>spr_user_id := Some u\<rparr>) s =
           (if list_ex (\<lambda>p. p_id p = spr_personality_id selection) (personalities (db s))
            then (Inl (HTTPException 400 BAD_USER_ID_DETAIL), s)
            else (Inl (HTTPException 404 PERSONALITY_NOT_FOUND_DETAIL), s)) \<and>
         chat e (turn\<lparr>cr_user_id := Some u\<rparr>) s = chat e (turn\<lparr>cr_user_id := None\<rparr>) s"
  using assms
  apply (intro conjI)
  subgoal by (simp add: start_roadmap_def)
  subgoal by (simp add: get_user_sessions_def)
  subgoal
    by (auto simp: select_personality_def list_ex_iff find_None_iff find_Some_iff
        split: option.splits)
  subgoal
    by (simp add: chat_def attach_user_def save_conversation_message_def Let_def
        split: sum.splits list.splits option.splits)
  done

theorem malformed_user_id_responses_witness:
  "''not-a-uuid'' \<noteq> [] \<and> uuid_UUID example_env ''not-a-uuid'' = None \<and>
   start_roadmap example_env \<lparr>srr_session_id = ''s2'', srr_user_id = Some ''not-a-uuid''\<rparr>
     example_server = (Inl (HTTPException 400 BAD_USER_ID_DETAIL), example_server) \<and>
   get_user_sessions example_env ''not-a-uuid'' example_server =
     Inl (HTTPException 400 BAD_USER_ID_DETAIL) \<and>
   select_personality example_env
     \<lparr>spr_session_id = ''s2'', spr_personality_id = 2, spr_user_id = Some ''not-a-uuid''\<rparr>
     example_server = (Inl (HTTPException 400 BAD_USER_ID_DETAIL), example_server)"
proof -
  have h1: "''not-a-uuid'' \<noteq> []" by simp
  have h2: "uuid_UUID example_env ''not-a-uuid'' = None" by (simp add: example_env_def)
  have h3: "list_ex (\<lambda>p. p_id p = 2) (personalities (db example_server))"
    by (simp add: example_defs)
  from malformed_user_id_responses
      [OF h1 h2, of "\<lparr>srr_session_id = ''s2'', srr_user_id = None\<rparr>" example_server
        "\<lparr>spr_session_id = ''s2'', spr_personality_id = 2, spr_user_id = None\<rparr>"
        chat_request]
    h1 h2 h3
  show ?thesis by simp
qed

text \<open>
  Claim C8 as stated fails on \<open>chat\<close>: the request carries the malformed user id
  \<open>not-a-uuid\<close> and is answered with a reply, not with an error.
\<close>

theorem chat_accepts_malformed_user_id:
  "cr_user_id chat_request = Some ''not-a-uuid'' \<and>
   uuid_UUID example_env ''not-a-uuid'' = None \<and>
   fst (chat example_env chat_request example_server) =
     Inr \<lparr>resp_response = ''hello'', resp_model_id = DEFAULT_MODEL_ID,
          resp_session_id = ''s2''\<rparr>"
  by (simp add: chat_def chat_request_def example_env_def session_id_or_new_def Let_def)

section \<open>A malformed user filter\<close>

text \<open>
  Claim C9. A \<open>user_id\<close> that is not a well-formed UUID is dropped: the search returns
  what it returns without a user filter, on the database-native path and in the fallback,
  whose candidates are then the embedded messages of all users.
\<close>

theorem malformed_user_filter_dropped:
  assumes "uuid_UUID e u = None"
  shows "search_similar_messages e query (Some u) limit d =
           search_similar_messages e query None limit d \<and>
         native_search e q (Some u) limit = native_search e q None limit \<and>
         fallback_search e q (Some u) limit d = fallback_search e q None limit d \<and>
         candidate_messages e (Some u) d =
           filter (\<lambda>m. cm_embedding m \<noteq> None) (conversation_messages d)"
proof -
  have "search_similar_messages e query (Some u) limit d =
           search_similar_messages e query None limit d"
    using assms
    by (simp add: search_similar_messages_def native_search_malformed
        fallback_search_malformed cong: option.case_cong sum.case_cong)
  moreover have "candidate_messages e None d =
      filter (\<lambda>m. cm_embedding m \<noteq> None) (conversation_messages d)"
    by (simp add: candidate_messages_def)
  ultimately show ?thesis
    using assms
    by (simp add: native_search_malformed fallback_search_malformed
        candidate_messages_malformed)
qed

theorem malformed_user_filter_dropped_witness:
  "uuid_UUID example_env ''not-a-uuid'' = None \<and>
   search_similar_messages example_env ''east'' (Some ''not-a-uuid'') (Some 5) search_db =
     Inr east_results"
proof -
  have h: "uuid_UUID example_env ''not-a-uuid'' = None" by (simp add: example_env_def)
  from malformed_user_filter_dropped [OF h, of "''east''" "Some 5" search_db] h fallback_example
  show ?thesis by simp
qed

section \<open>Starting the roadmap mode\<close>

text \<open>
  Claim C10. A successful \<open>start_roadmap\<close> removes the session's entry from the cache and
  leaves every other entry as it was; hence the next \<open>chat\<close> turn of that session that
  brings no history sends the model the new user message alone, and caches just that
  message and the answer.
\<close>

theorem start_roadmap_clears_history:
  assumes "start_roadmap e request s = (Inr reply, s')"
  shows "conversation_history s' = (conversation_history s) (srr_session_id request := None) \<and>
         (\<forall>e2 turn resp s2.
            cr_session_id turn = Some (srr_session_id request) \<longrightarrow>
            srr_session_id request \<noteq> [] \<longrightarrow>
            (cr_conversation_history turn = None \<or> cr_conversation_history turn = Some []) \<longrightarrow>
            chat e2 turn s' = (Inr resp, s2) \<longrightarrow>
            pl_messages (chat_body e2 turn s') =
              [\<lparr>msg_role = ''user'', msg_content = cr_message turn\<rparr>] \<and>
            conversation_history s2 (srr_session_id request) =
              Some [\<lparr>msg_role = ''user'', msg_content = cr_message turn\<rparr>,
                    \<lparr>msg_role = ''assistant'', msg_content = resp_response resp\<rparr>])"
proof -
  have h: "conversation_history s' = (conversation_history s) (srr_session_id request := None)"
    using assms by (rule start_roadmap_history)
  have "pl_messages (chat_body e2 turn s') =
              [\<lparr>msg_role = ''user'', msg_content = cr_message turn\<rparr>] \<and>
        conversation_history s2 (srr_session_id request) =
              Some [\<lparr>msg_role = ''user'', msg_content = cr_message turn\<rparr>,
                    \<lparr>msg_role = ''assistant'', msg_content = resp_response resp\<rparr>]"
    if a: "cr_session_id turn = Some (srr_session_id request)"
      and b: "srr_session_id request \<noteq> []"
      and c: "cr_conversation_history turn = None \<or> cr_conversation_history turn = Some []"
      and d: "chat e2 turn s' = (Inr resp, s2)"
    for e2 turn resp s2
  proof -
    have sid: "session_id_or_new e2 (cr_session_id turn) = srr_session_id request"
      using a b by (simp add: session_id_or_new_def)
    have asm: "assemble_messages (cr_conversation_history turn) (conversation_history s')
                 (srr_session_id request) (cr_message turn) =
               [\<lparr>msg_role = ''user'', msg_content = cr_message turn\<rparr>]"
      using c h by (auto simp: assemble_messages_def)
    have body: "pl_messages (chat_body e2 turn s') =
              [\<lparr>msg_role = ''user'', msg_content = cr_message turn\<rparr>]"
      using sid asm by (simp add: chat_body_def Let_def)
    from chat_success_history [OF d] sid asm
    have "conversation_history s2 (srr_session_id request) =
              Some [\<lparr>msg_role = ''user'', msg_content = cr_message turn\<rparr>,
                    \<lparr>msg_role = ''assistant'', msg_content = resp_response resp\<rparr>]"
      by (simp add: keep_last_50_def)
    with body show ?thesis by simp
  qed
  with h show ?thesis by blast
qed

theorem start_roadmap_clears_history_witness:
  "fst (start_roadmap example_env roadmap_request example_server) =
     Inr \<lparr>rm_message = ROADMAP_STARTED_MESSAGE, rm_session_id = ''s2'',
          rm_mode = ''roadmap''\<rparr> \<and>
   conversation_history example_server ''s2'' \<noteq> None \<and>
   conversation_history after_roadmap ''s2'' = None \<and>
   conversation_history after_roadmap ''s0'' = conversation_history example_server ''s0'' \<and>
   pl_messages (chat_body example_env chat_request after_roadmap) =
     [\<lparr>msg_role = ''user'', msg_content = ''next''\<rparr>] \<and>
   conversation_history (snd (chat example_env chat_request after_roadmap)) ''s2'' =
     Some [\<lparr>msg_role = ''user'', msg_content = ''next''\<rparr>,
           \<lparr>msg_role = ''assistant'', msg_content = ''hello''\<rparr>]"
proof -
  let ?reply = "\<lparr>rm_message = ROADMAP_STARTED_MESSAGE, rm_session_id = ''s2'',
                 rm_mode = ''roadmap''\<rparr>"
  let ?resp = "\<lparr>resp_response = ''hello'', resp_model_id = DEFAULT_MODEL_ID,
                resp_session_id = ''s2''\<rparr>"
  have f1: "fst (start_roadmap example_env roadmap_request example_server) = Inr ?reply"
    by (simp add: start_roadmap_def roadmap_request_def Let_def)
  then have h1: "start_roadmap example_env roadmap_request example_server =
      (Inr ?reply, after_roadmap)"
    by (simp add: prod_eq_iff after_roadmap_def)
  have f2: "fst (chat example_env chat_request after_roadmap) = Inr ?resp"
    by (simp add: chat_def chat_request_def example_env_def session_id_or_new_def Let_def)
  then have h2: "chat example_env chat_request after_roadmap =
      (Inr ?resp, snd (chat example_env chat_request after_roadmap))"
    by (simp add: prod_eq_iff)
  have h3: "cr_session_id chat_request = Some (srr_session_id roadmap_request)"
    by (simp add: chat_request_def roadmap_request_def)
  have h4: "srr_session_id roadmap_request \<noteq> []"
    by (simp add: roadmap_request_def)
  have h5: "cr_conversation_history chat_request = None \<or>
            cr_conversation_history chat_request = Some []"
    by (simp add: chat_request_def)
  have h6: "conversation_history example_server ''s2'' \<noteq> None"
    by (simp add: example_server_def)
  from start_roadmap_clears_history [OF h1] h2 h3 h4 h5
  have "conversation_history after_roadmap =
          (conversation_history example_server) (srr_session_id roadmap_request := None)"
    and "pl_messages (chat_body example_env chat_request after_roadmap) =
           [\<lparr>msg_role = ''user'', msg_content = cr_message chat_request\<rparr>] \<and>
         conversation_history (snd (chat example_env chat_request after_roadmap))
           (srr_session_id roadmap_request) =
           Some [\<lparr>msg_role = ''user'', msg_content = cr_message chat_request\<rparr>,
                 \<lparr>msg_role = ''assistant'', msg_content = resp_response ?resp\<rparr>]"
    by blast+
  with f1 h6 show ?thesis
    by (simp add: roadmap_request_def chat_request_def)
qed

end
